theory Spec2Isabelle
  imports Main
begin

section \<open>The health probe of \<^verbatim>\<open>docker_healthcheck.py\<close>\<close>

text \<open>
  The module defines one function, \<^verbatim>\<open>check_health(port=config.PORT)\<close>, and a
  module body that calls it when the module runs as \<^verbatim>\<open>__main__\<close>. Everything the
  function does beyond computing a boolean is an effect on the outside world: it asks
  \<^verbatim>\<open>requests.get\<close> for a URL, it prints a line, it may raise. The embedding makes
  each of these explicit:
  \<^item> the network is a parameter, a function from the URL to what \<^verbatim>\<open>requests.get\<close>
    does for it (a response, or an exception);
  \<^item> the printed lines and the URLs handed to \<^verbatim>\<open>requests.get\<close> are traces in a
    record that is passed in and returned updated;
  \<^item> an exception leaving a function is the \<open>Inl\<close> of a sum.
\<close>

subsection \<open>Python values and their formatting in an f-string\<close>

text \<open>
  Python checks no type at a call, so \<^verbatim>\<open>port\<close> may be any object. The values
  modelled are integers (unbounded), strings, booleans and \<^verbatim>\<open>None\<close>.
\<close>

datatype pyval = PyInt int | PyStr string | PyBool bool | PyNone

text \<open>
  \<open>ConnectionError\<close> stands for an instance of
  \<^verbatim>\<open>requests.exceptions.ConnectionError\<close> (the class named in the \<^verbatim>\<open>except\<close>
  clause, or a subclass of it); \<open>OtherException name\<close> for an instance of any class
  that clause does not match. \<open>TypeError\<close> is what a call raises whose arguments do
  not fit the signature, \<open>ValueError\<close> what the conversion of a too long integer to
  text raises, \<open>SystemExit code\<close> what \<^verbatim>\<open>sys.exit(code)\<close> raises.
\<close>

datatype exn = ConnectionError | TypeError | ValueError | SystemExit int | OtherException string

definition digit_char :: "nat \<Rightarrow> char" where
  "digit_char d = ''0123456789'' ! d"

function str_nat :: "nat \<Rightarrow> string" where
  "str_nat n = (if n < 10 then [digit_char n] else str_nat (n div 10) @ [digit_char (n mod 10)])"
  by pat_completeness auto
termination
  by (relation "measure (\<lambda>n. n)") auto

declare str_nat.simps [simp del]

definition decimal :: "int \<Rightarrow> string" where
  "decimal i = (if i < 0 then CHR ''-'' # str_nat (nat (- i)) else str_nat (nat i))"

text \<open>
  \<^verbatim>\<open>str\<close> of an \<^verbatim>\<open>int\<close>: the interpreter refuses, with a \<open>ValueError\<close>, to
  write an integer of more than \<^verbatim>\<open>sys.get_int_max_str_digits()\<close> decimal digits (the
  sign not counted); the default limit is 4300. An integer has more than \<open>n\<close> digits
  exactly when its absolute value is at least \<open>10 ^ n\<close>.
\<close>

definition int_max_str_digits :: nat where
  "int_max_str_digits = 4300"

definition str_int :: "int \<Rightarrow> exn + string" where
  "str_int i = (if 10 ^ int_max_str_digits \<le> \<bar>i\<bar> then Inl ValueError else Inr (decimal i))"

text \<open>
  A replacement field \<^verbatim>\<open>{v}\<close> of an f-string is \<^verbatim>\<open>format(v, "")\<close>, which for
  these values is \<^verbatim>\<open>str(v)\<close>. A \<^verbatim>\<open>bool\<close> is written by name, whatever the
  limit on integers.
\<close>

fun format_field :: "pyval \<Rightarrow> exn + string" where
  "format_field (PyInt i) = str_int i"
| "format_field (PyStr s) = Inr s"
| "format_field (PyBool b) = Inr (if b then ''True'' else ''False'')"
| "format_field PyNone = Inr ''None''"

subsection \<open>Configuration, responses, the world\<close>

text \<open>
  The module \<^verbatim>\<open>config\<close> is imported and not part of the sources; the two
  attributes the code reads, \<^verbatim>\<open>config.HOST\<close> and \<^verbatim>\<open>config.PORT\<close>, are the
  fields of a record taken as a parameter.
\<close>

record config =
  HOST :: pyval
  PORT :: pyval

text \<open>
  Of a response the code reads \<^verbatim>\<open>status_code\<close> only; headers and body are kept in
  the model so that what does not depend on them can be said.
\<close>

record response =
  status_code :: int
  headers :: "(string \<times> string) list"
  body :: string

datatype get_result = Response response | Raises exn

type_synonym network = "string \<Rightarrow> get_result"

record world =
  stdout :: "string list"
  requested :: "string list"

definition print :: "string \<Rightarrow> world \<Rightarrow> world" where
  "print line w = w\<lparr>stdout := stdout w @ [line]\<rparr>"

text \<open>\<^verbatim>\<open>requests.get(url)\<close>: the URL is recorded, the network answers.\<close>

definition requests_get :: "network \<Rightarrow> string \<Rightarrow> world \<Rightarrow> get_result \<times> world" where
  "requests_get net url w = (net url, w\<lparr>requested := requested w @ [url]\<rparr>)"

subsection \<open>\<^verbatim>\<open>check_health\<close>\<close>

text \<open>
  The f-string of line 17. Its fields are formatted from left to right, and a field
  that cannot be formatted raises.
\<close>

definition health_url :: "config \<Rightarrow> pyval \<Rightarrow> exn + string" where
  "health_url cfg port =
     (case format_field (HOST cfg) of
        Inl e \<Rightarrow> Inl e
      | Inr h \<Rightarrow>
          (case format_field port of
             Inl e \<Rightarrow> Inl e
           | Inr p \<Rightarrow> Inr (''http://'' @ h @ '':'' @ p @ ''/health'')))"

text \<open>
  The body of the \<^verbatim>\<open>try\<close>, lines 17 to 25, with \<^verbatim>\<open>port\<close> already bound: the
  URL, the GET, the comparison of the status code. An exception of the f-string or of
  the GET ends it.
\<close>

definition try_body :: "config \<Rightarrow> network \<Rightarrow> pyval \<Rightarrow> world \<Rightarrow> (exn + bool) \<times> world" where
  "try_body cfg net port w =
     (case health_url cfg port of
        Inl e \<Rightarrow> (Inl e, w)
      | Inr url \<Rightarrow>
          (case requests_get net url w of
             (Raises e, w1) \<Rightarrow> (Inl e, w1)
           | (Response resp, w1) \<Rightarrow>
               if status_code resp = 200
               then (Inr True, print ''Healthcheck passed'' w1)
               else (Inr False, print ''Healthcheck failed'' w1)))"

text \<open>
  \<^verbatim>\<open>check_health\<close>, lines 16 to 28: the \<^verbatim>\<open>except\<close> clause catches
  \<open>ConnectionError\<close> and nothing else.
\<close>

definition check_health :: "config \<Rightarrow> network \<Rightarrow> pyval \<Rightarrow> world \<Rightarrow> (exn + bool) \<times> world" where
  "check_health cfg net port w =
     (case try_body cfg net port w of
        (Inl e, w1) \<Rightarrow>
          if e = ConnectionError
          then (Inr False, print ''Healthcheck failed'' w1)
          else (Inl e, w1)
      | (Inr ok, w1) \<Rightarrow> (Inr ok, w1))"

text \<open>
  The signature of line 6, \<^verbatim>\<open>def check_health(port=config.PORT)\<close>: one parameter,
  positional or keyword, with a default. A call gives positional arguments and keyword
  arguments. More than one positional argument, a keyword other than \<^verbatim>\<open>port\<close>,
  \<^verbatim>\<open>port\<close> given both ways, or a keyword given twice (which only \<^verbatim>\<open>**\<close>
  unpacking can do) is a \<open>TypeError\<close> raised before the body runs. The default is the value \<^verbatim>\<open>config.PORT\<close> had when the \<^verbatim>\<open>def\<close> ran;
  the configuration is one record here, fixed for the run.
\<close>

definition bind_port :: "config \<Rightarrow> pyval list \<Rightarrow> (string \<times> pyval) list \<Rightarrow> exn + pyval" where
  "bind_port cfg args kwargs =
     (if length args > 1 then Inl TypeError
      else if \<not> distinct (map fst kwargs) then Inl TypeError
      else if filter (\<lambda>k. k \<noteq> ''port'') (map fst kwargs) \<noteq> [] then Inl TypeError
      else case (args, map_of kwargs ''port'') of
             ([], None) \<Rightarrow> Inr (PORT cfg)
           | ([], Some p) \<Rightarrow> Inr p
           | (p # _, None) \<Rightarrow> Inr p
           | (p # _, Some _) \<Rightarrow> Inl TypeError)"

definition call_check_health ::
  "config \<Rightarrow> network \<Rightarrow> pyval list \<Rightarrow> (string \<times> pyval) list \<Rightarrow> world \<Rightarrow> (exn + bool) \<times> world" where
  "call_check_health cfg net args kwargs w =
     (case bind_port cfg args kwargs of
        Inl e \<Rightarrow> (Inl e, w)
      | Inr port \<Rightarrow> check_health cfg net port w)"

subsection \<open>The module body\<close>

text \<open>
  Lines 31 and 32: \<^verbatim>\<open>if __name__ == "__main__" and not check_health(): sys.exit(1)\<close>.
  \<^verbatim>\<open>and\<close> evaluates its right operand only when the left one is true.
\<close>

definition module_body :: "config \<Rightarrow> network \<Rightarrow> string \<Rightarrow> world \<Rightarrow> (exn + unit) \<times> world" where
  "module_body cfg net name w =
     (if name = ''__main__'' then
        (case call_check_health cfg net [] [] w of
           (Inl e, w1) \<Rightarrow> (Inl e, w1)
         | (Inr ok, w1) \<Rightarrow> if \<not> ok then (Inl (SystemExit 1), w1) else (Inr (), w1))
      else (Inr (), w))"

text \<open>
  The exit status of the interpreter: 0 when the module body ends, the code of a
  \<open>SystemExit\<close>, 1 for any other exception that nothing caught.
\<close>

fun exit_status :: "exn + unit \<Rightarrow> int" where
  "exit_status (Inr _) = 0"
| "exit_status (Inl (SystemExit code)) = code"
| "exit_status (Inl _) = 1"

definition run_as_main :: "config \<Rightarrow> network \<Rightarrow> world \<Rightarrow> int \<times> world" where
  "run_as_main cfg net w =
     (case module_body cfg net ''__main__'' w of (r, w1) \<Rightarrow> (exit_status r, w1))"

subsection \<open>Concrete inputs\<close>

definition cfg0 :: config where
  "cfg0 = \<lparr>HOST = PyStr ''localhost'', PORT = PyInt 5000\<rparr>"

definition w0 :: world where
  "w0 = \<lparr>stdout = [], requested = []\<rparr>"

definition resp :: "int \<Rightarrow> response" where
  "resp code = \<lparr>status_code = code, headers = [], body = []\<rparr>"

text \<open>A server on port 5000 that knows \<^verbatim>\<open>/health\<close> only; nothing listens elsewhere.\<close>

definition net0 :: network where
  "net0 url =
     (if url = ''http://localhost:5000/health'' then Response (resp 200)
      else if take 22 url = ''http://localhost:5000/'' then Response (resp 404)
      else Raises ConnectionError)"

text \<open>A network that answers every GET with 404.\<close>

definition net_404 :: network where
  "net_404 url = Response (resp 404)"

text \<open>A configuration whose default port has no listener on \<open>net0\<close>.\<close>

definition cfg_down :: config where
  "cfg_down = \<lparr>HOST = PyStr ''localhost'', PORT = PyInt 8088\<rparr>"

text \<open>A network that answers every GET with 200, some headers and a body.\<close>

definition resp_verbose :: response where
  "resp_verbose =
     \<lparr>status_code = 200, headers = [(''Content-Type'', ''application/json'')],
      body = ''status: down''\<rparr>"

definition net_verbose :: network where
  "net_verbose url = Response resp_verbose"

text \<open>A network on which every GET raises \<^verbatim>\<open>requests.exceptions.InvalidURL\<close>.\<close>

definition net_invalid :: network where
  "net_invalid url = Raises (OtherException ''InvalidURL'')"


section \<open>Helper facts\<close>

lemma str_int_small: "\<bar>i\<bar> < 100000 \<Longrightarrow> str_int i = Inr (decimal i)"
proof -
  assume a: "\<bar>i\<bar> < 100000"
  have "(10::int) ^ 5 \<le> 10 ^ int_max_str_digits"
    by (rule power_increasing) (simp_all add: int_max_str_digits_def)
  moreover have "(10::int) ^ 5 = 100000"
    by simp
  ultimately have "(100000::int) \<le> 10 ^ int_max_str_digits"
    by (simp only:)
  with a have "\<not> 10 ^ int_max_str_digits \<le> \<bar>i\<bar>"
    by linarith
  then show ?thesis
    by (simp add: str_int_def)
qed

lemma str_int_too_long: "str_int (10 ^ int_max_str_digits) = Inl ValueError"
  by (simp add: str_int_def)

lemma format_5000: "format_field (PyInt 5000) = Inr ''5000''"
  by (simp add: str_int_small decimal_def str_nat.simps digit_char_def)

lemma format_8088: "format_field (PyInt 8088) = Inr ''8088''"
  by (simp add: str_int_small decimal_def str_nat.simps digit_char_def)

lemma format_70000: "format_field (PyInt 70000) = Inr ''70000''"
  by (simp add: str_int_small decimal_def str_nat.simps digit_char_def)

lemma format_minus_1: "format_field (PyInt (- 1)) = Inr ''-1''"
  by (simp add: str_int_small decimal_def str_nat.simps digit_char_def)

lemma health_url_Inr:
  "format_field (HOST cfg) = Inr h \<Longrightarrow> format_field port = Inr p \<Longrightarrow>
   health_url cfg port = Inr (''http://'' @ h @ '':'' @ p @ ''/health'')"
  by (simp add: health_url_def)

lemma health_url_Inl: "health_url cfg port = Inl e \<Longrightarrow> e = ValueError"
proof -
  have f: "format_field v = Inl e' \<Longrightarrow> e' = ValueError" for v e'
    by (cases v) (auto simp add: str_int_def split: if_splits)
  assume "health_url cfg port = Inl e"
  then show ?thesis
    by (auto simp add: health_url_def split: sum.splits dest: f)
qed

lemma HOST_cfg0: "format_field (HOST cfg0) = Inr ''localhost''"
  by (simp add: cfg0_def)

lemma health_url_cfg0_5000: "health_url cfg0 (PyInt 5000) = Inr ''http://localhost:5000/health''"
  using health_url_Inr [OF HOST_cfg0 format_5000] by simp

lemma health_url_cfg0_8088: "health_url cfg0 (PyStr ''8088'') = Inr ''http://localhost:8088/health''"
  by (simp add: health_url_def cfg0_def)

lemma health_url_cfg_down: "health_url cfg_down (PyInt 8088) = Inr ''http://localhost:8088/health''"
  using health_url_Inr [of cfg_down "''localhost''", OF _ format_8088] by (simp add: cfg_down_def)

lemma check_health_response:
  "health_url cfg port = Inr url \<Longrightarrow> net url = Response r \<Longrightarrow>
   check_health cfg net port w =
     (Inr (status_code r = 200),
      print (if status_code r = 200 then ''Healthcheck passed'' else ''Healthcheck failed'')
        (w\<lparr>requested := requested w @ [url]\<rparr>))"
  by (simp add: check_health_def try_body_def requests_get_def)

lemma check_health_raises:
  "health_url cfg port = Inr url \<Longrightarrow> net url = Raises e \<Longrightarrow>
   check_health cfg net port w =
     (if e = ConnectionError
      then (Inr False, print ''Healthcheck failed'' (w\<lparr>requested := requested w @ [url]\<rparr>))
      else (Inl e, w\<lparr>requested := requested w @ [url]\<rparr>))"
  by (simp add: check_health_def try_body_def requests_get_def)

lemma check_health_unformattable:
  "health_url cfg port = Inl e \<Longrightarrow> check_health cfg net port w = (Inl ValueError, w)"
  by (frule health_url_Inl) (simp add: check_health_def try_body_def)

lemma health_url_too_long:
  "health_url cfg0 (PyInt (10 ^ int_max_str_digits)) = Inl ValueError"
  by (simp add: health_url_def HOST_cfg0 str_int_too_long)

lemma call_positional: "call_check_health cfg net [port] [] w = check_health cfg net port w"
  by (simp add: call_check_health_def bind_port_def)

lemma call_keyword:
  "call_check_health cfg net [] [(''port'', port)] w = check_health cfg net port w"
  by (simp add: call_check_health_def bind_port_def)

lemma call_default: "call_check_health cfg net [] [] w = check_health cfg net (PORT cfg) w"
  by (simp add: call_check_health_def bind_port_def)

section \<open>The claims\<close>

text \<open>
  C1. When the GET completes with a response, \<^verbatim>\<open>check_health\<close> returns
  \<^verbatim>\<open>True\<close> if and only if the status code of the response is exactly 200; every other
  status code yields \<^verbatim>\<open>False\<close>.
\<close>

theorem check_health_true_iff_200:
  "health_url cfg port = Inr url \<Longrightarrow> net url = Response r \<Longrightarrow>
   fst (check_health cfg net port w) = Inr (status_code r = 200)"
  by (simp add: check_health_response)

theorem check_health_true_iff_200_witness:
  "health_url cfg0 (PyInt 5000) = Inr ''http://localhost:5000/health'' \<and>
   net0 ''http://localhost:5000/health'' = Response (resp 200) \<and>
   fst (check_health cfg0 net0 (PyInt 5000) w0) = Inr True \<and>
   net0 ''http://localhost:5000/missing'' = Response (resp 404) \<and>
   fst (check_health cfg0 net_404 (PyInt 5000) w0) = Inr False"
proof -
  have h: "net0 ''http://localhost:5000/health'' = Response (resp 200)"
    by (simp add: net0_def)
  have m: "net0 ''http://localhost:5000/missing'' = Response (resp 404)"
    by (simp add: net0_def)
  have n: "net_404 ''http://localhost:5000/health'' = Response (resp 404)"
    by (simp add: net_404_def)
  show ?thesis
    using h m n health_url_cfg0_5000
      check_health_true_iff_200
        [of cfg0 "PyInt 5000" "''http://localhost:5000/health''" net0 "resp 200" w0]
      check_health_true_iff_200
        [of cfg0 "PyInt 5000" "''http://localhost:5000/health''" net_404 "resp 404" w0]
    by (simp add: resp_def)
qed

text \<open>
  C2. When the GET fails with a \<^verbatim>\<open>ConnectionError\<close>, \<^verbatim>\<open>check_health\<close> catches it
  and returns \<^verbatim>\<open>False\<close>: the result is a value, not an exception.
\<close>

theorem connection_error_is_caught:
  "health_url cfg port = Inr url \<Longrightarrow> net url = Raises ConnectionError \<Longrightarrow>
   fst (check_health cfg net port w) = Inr False"
  by (simp add: check_health_raises)

theorem connection_error_is_caught_witness:
  "health_url cfg0 (PyStr ''8088'') = Inr ''http://localhost:8088/health'' \<and>
   net0 ''http://localhost:8088/health'' = Raises ConnectionError \<and>
   fst (check_health cfg0 net0 (PyStr ''8088'') w0) = Inr False"
proof -
  have h: "net0 ''http://localhost:8088/health'' = Raises ConnectionError"
    by (simp add: net0_def)
  show ?thesis
    using h health_url_cfg0_8088
      connection_error_is_caught
        [of cfg0 "PyStr ''8088''" "''http://localhost:8088/health''" net0 w0]
    by simp
qed

text \<open>
  C3 (as amended). The contract is \<^verbatim>\<open>check_health(port=config.PORT)\<close>: a call that
  gives nothing, or the port alone (by position or by keyword), runs the body with that
  port, the default being \<^verbatim>\<open>config.PORT\<close>. When host and port can be formatted
  (each a string, a bool, \<^verbatim>\<open>None\<close> or an integer of at most 4300 digits), the body
  hands \<^verbatim>\<open>http://{config.HOST}:{port}/health\<close> to \<^verbatim>\<open>requests.get\<close> exactly once.
  The host is always the configured one and the path always \<^verbatim>\<open>/health\<close>.
\<close>

theorem check_health_contract:
  assumes "format_field (HOST cfg) = Inr h" and "format_field port = Inr p"
  shows "call_check_health cfg net [] [] w = check_health cfg net (PORT cfg) w \<and>
    call_check_health cfg net [port] [] w = check_health cfg net port w \<and>
    call_check_health cfg net [] [(''port'', port)] w = check_health cfg net port w \<and>
    requested (snd (check_health cfg net port w)) =
      requested w @ [''http://'' @ h @ '':'' @ p @ ''/health'']"
proof -
  let ?url = "''http://'' @ h @ '':'' @ p @ ''/health''"
  have u: "health_url cfg port = Inr ?url"
    using assms by (rule health_url_Inr)
  have "requested (snd (check_health cfg net port w)) = requested w @ [?url]"
  proof (cases "net ?url")
    case (Response r)
    with u show ?thesis
      by (simp add: check_health_response print_def)
  next
    case (Raises e)
    with u show ?thesis
      by (simp add: check_health_raises print_def)
  qed
  then show ?thesis
    by (simp add: call_default call_positional call_keyword)
qed

theorem check_health_contract_witness:
  "format_field (HOST cfg0) = Inr ''localhost'' \<and>
   format_field (PyInt 5000) = Inr ''5000'' \<and>
   call_check_health cfg0 net0 [] [] w0 = check_health cfg0 net0 (PyInt 5000) w0 \<and>
   requested (snd (call_check_health cfg0 net0 [] [] w0)) = [''http://localhost:5000/health'']"
  using HOST_cfg0 format_5000
    check_health_contract [of cfg0 "''localhost''" "PyInt 5000" "''5000''" net0 w0]
  by (simp add: cfg0_def [THEN arg_cong, of PORT] w0_def)

text \<open>
  The claim as the specification words it fails: \<^verbatim>\<open>check_health\<close> has no host and no
  path parameter, so a call with a host, a port and a path, by position or by keyword,
  raises \<open>TypeError\<close> and requests nothing; and not every port gives a URL, since a
  port that is an integer of 4301 digits raises \<open>ValueError\<close> in the f-string.
\<close>

theorem check_health_contract_counterexample:
  "call_check_health cfg0 net0 [PyStr ''example.org'', PyInt 5000, PyStr ''/status''] [] w0
     = (Inl TypeError, w0) \<and>
   call_check_health cfg0 net0 []
       [(''host'', PyStr ''example.org''), (''port'', PyInt 5000), (''path'', PyStr ''/status'')] w0
     = (Inl TypeError, w0) \<and>
   requested w0 \<noteq> [''http://example.org:5000/status''] \<and>
   call_check_health cfg0 net0 [] [(''port'', PyInt (10 ^ int_max_str_digits))] w0
     = (Inl ValueError, w0)"
proof -
  have "call_check_health cfg0 net0 [] [(''port'', PyInt (10 ^ int_max_str_digits))] w0
          = (Inl ValueError, w0)"
    by (simp only: call_keyword check_health_unformattable [OF health_url_too_long])
  moreover have
    "call_check_health cfg0 net0 [PyStr ''example.org'', PyInt 5000, PyStr ''/status''] [] w0
       = (Inl TypeError, w0)"
    by (simp add: call_check_health_def bind_port_def)
  moreover have
    "call_check_health cfg0 net0 []
       [(''host'', PyStr ''example.org''), (''port'', PyInt 5000), (''path'', PyStr ''/status'')] w0
       = (Inl TypeError, w0)"
    by (simp add: call_check_health_def bind_port_def)
  moreover have "requested w0 \<noteq> [''http://example.org:5000/status'']"
    by (simp add: w0_def)
  ultimately show ?thesis
    by (simp only: simp_thms)
qed

text \<open>
  C4. An exception of the GET that is not a \<^verbatim>\<open>ConnectionError\<close> is not caught: it
  leaves \<^verbatim>\<open>check_health\<close>, and nothing is printed.
\<close>

theorem other_exceptions_propagate:
  "health_url cfg port = Inr url \<Longrightarrow> net url = Raises e \<Longrightarrow> e \<noteq> ConnectionError \<Longrightarrow>
   fst (check_health cfg net port w) = Inl e \<and>
   stdout (snd (check_health cfg net port w)) = stdout w"
  by (simp add: check_health_raises)

theorem other_exceptions_propagate_witness:
  "health_url cfg0 (PyStr ''80:80'') = Inr ''http://localhost:80:80/health'' \<and>
   net_invalid ''http://localhost:80:80/health'' = Raises (OtherException ''InvalidURL'') \<and>
   OtherException ''InvalidURL'' \<noteq> ConnectionError \<and>
   fst (check_health cfg0 net_invalid (PyStr ''80:80'') w0) = Inl (OtherException ''InvalidURL'') \<and>
   stdout (snd (check_health cfg0 net_invalid (PyStr ''80:80'') w0)) = []"
proof -
  have u: "health_url cfg0 (PyStr ''80:80'') = Inr ''http://localhost:80:80/health''"
    by (simp add: health_url_def cfg0_def)
  show ?thesis
    using u other_exceptions_propagate
      [of cfg0 "PyStr ''80:80''" "''http://localhost:80:80/health''" net_invalid
          "OtherException ''InvalidURL''" w0]
    by (simp add: net_invalid_def w0_def)
qed

text \<open>
  C5. Run as the entry point, the process exits with status 0 when \<^verbatim>\<open>check_health\<close>
  returns \<^verbatim>\<open>True\<close> and with status 1 when it returns \<^verbatim>\<open>False\<close>.
\<close>

theorem exit_status_of_verdict:
  "fst (check_health cfg net (PORT cfg) w) = Inr ok \<Longrightarrow>
   fst (run_as_main cfg net w) = (if ok then 0 else 1)"
proof -
  assume h: "fst (check_health cfg net (PORT cfg) w) = Inr ok"
  obtain r w1 where c: "check_health cfg net (PORT cfg) w = (r, w1)"
    by (cases "check_health cfg net (PORT cfg) w")
  with h have "r = Inr ok" by simp
  with c show ?thesis
    by (simp add: run_as_main_def module_body_def call_default)
qed

theorem exit_status_of_verdict_witness:
  "fst (check_health cfg0 net0 (PORT cfg0) w0) = Inr True \<and>
   fst (run_as_main cfg0 net0 w0) = 0 \<and>
   fst (check_health cfg_down net0 (PORT cfg_down) w0) = Inr False \<and>
   fst (run_as_main cfg_down net0 w0) = 1"
proof -
  have p0: "PORT cfg0 = PyInt 5000"
    by (simp add: cfg0_def)
  have p1: "PORT cfg_down = PyInt 8088"
    by (simp add: cfg_down_def)
  have up: "fst (check_health cfg0 net0 (PORT cfg0) w0) = Inr True"
    unfolding p0
    by (simp add: check_health_response [OF health_url_cfg0_5000, of net0 "resp 200"]
          net0_def resp_def)
  have down: "fst (check_health cfg_down net0 (PORT cfg_down) w0) = Inr False"
    unfolding p1
    by (simp add: check_health_raises [OF health_url_cfg_down, of net0 ConnectionError]
          net0_def)
  show ?thesis
    using up down
      exit_status_of_verdict [of cfg0 net0 w0 True]
      exit_status_of_verdict [of cfg_down net0 w0 False]
    by simp
qed

text \<open>
  C6. A call of \<^verbatim>\<open>check_health\<close> that returns prints exactly one line:
  \<^verbatim>\<open>Healthcheck passed\<close> when it returns \<^verbatim>\<open>True\<close>, \<^verbatim>\<open>Healthcheck failed\<close> when
  it returns \<^verbatim>\<open>False\<close>, the caught connection failure included.
\<close>

theorem one_log_line:
  "fst (check_health cfg net port w) = Inr ok \<Longrightarrow>
   stdout (snd (check_health cfg net port w)) =
     stdout w @ [if ok then ''Healthcheck passed'' else ''Healthcheck failed'']"
proof -
  assume r: "fst (check_health cfg net port w) = Inr ok"
  show ?thesis
  proof (cases "health_url cfg port")
    case (Inl e)
    with r show ?thesis
      by (simp add: check_health_unformattable)
  next
    case (Inr url)
    show ?thesis
    proof (cases "net url")
      case (Response resp)
      with Inr r show ?thesis
        by (auto simp add: check_health_response print_def)
    next
      case (Raises e)
      with Inr r show ?thesis
        by (auto simp add: check_health_raises print_def split: if_splits)
    qed
  qed
qed

theorem one_log_line_witness:
  "fst (check_health cfg0 net0 (PyStr ''8088'') w0) = Inr False \<and>
   stdout (snd (check_health cfg0 net0 (PyStr ''8088'') w0)) = [''Healthcheck failed''] \<and>
   fst (check_health cfg0 net0 (PyInt 5000) w0) = Inr True \<and>
   stdout (snd (check_health cfg0 net0 (PyInt 5000) w0)) = [''Healthcheck passed'']"
proof -
  have down: "fst (check_health cfg0 net0 (PyStr ''8088'') w0) = Inr False"
    by (simp add: check_health_raises [OF health_url_cfg0_8088, of net0 ConnectionError]
          net0_def)
  have up: "fst (check_health cfg0 net0 (PyInt 5000) w0) = Inr True"
    by (simp add: check_health_response [OF health_url_cfg0_5000, of net0 "resp 200"]
          net0_def resp_def)
  show ?thesis
    using down up
      one_log_line [of cfg0 net0 "PyStr ''8088''" w0 False]
      one_log_line [of cfg0 net0 "PyInt 5000" w0 True]
    by (simp add: w0_def)
qed

text \<open>
  C7. The claim: with a server on port 5000 that answers 404 to
  \<^verbatim>\<open>GET /invalid_endpoint\<close>, the call
  \<^verbatim>\<open>check_health(port=5000, path="/invalid_endpoint")\<close> returns \<^verbatim>\<open>False\<close>. The
  test \<^verbatim>\<open>test_check_invalid_path_endpoint\<close> makes the same call with the path as
  second positional argument. The code has no such parameter: on the network \<open>net0\<close>,
  which answers 404 there, both calls raise \<open>TypeError\<close> and request nothing.
\<close>

theorem invalid_path_call_raises:
  "net0 ''http://localhost:5000/invalid_endpoint'' = Response (resp 404) \<and>
   call_check_health cfg0 net0 []
       [(''port'', PyInt 5000), (''path'', PyStr ''/invalid_endpoint'')] w0
     = (Inl TypeError, w0) \<and>
   call_check_health cfg0 net0 [PyInt 5000, PyStr ''/invalid_endpoint''] [] w0
     = (Inl TypeError, w0)"
  by (simp add: net0_def call_check_health_def bind_port_def)

text \<open>
  C8 (as amended). \<^verbatim>\<open>check_health\<close> checks nothing about \<^verbatim>\<open>port\<close> itself: a
  port that can be formatted is bound as it is, written into the URL, and that URL is
  requested; the outcome of the call is then decided by what the GET does. Every string
  (written unchanged), every bool, \<^verbatim>\<open>None\<close> and every integer of at most 4300 digits
  (written in decimal, whatever its sign or size) can be formatted.
\<close>

theorem port_not_validated:
  assumes "format_field (HOST cfg) = Inr h" and "format_field port = Inr p"
  shows "bind_port cfg [port] [] = Inr port \<and>
    requested (snd (call_check_health cfg net [port] [] w)) =
      requested w @ [''http://'' @ h @ '':'' @ p @ ''/health''] \<and>
    fst (call_check_health cfg net [port] [] w) =
      (case net (''http://'' @ h @ '':'' @ p @ ''/health'') of
         Response r \<Rightarrow> Inr (status_code r = 200)
       | Raises e \<Rightarrow> if e = ConnectionError then Inr False else Inl e) \<and>
    format_field (PyStr s) = Inr s \<and>
    format_field (PyBool b) = Inr (if b then ''True'' else ''False'') \<and>
    format_field PyNone = Inr ''None'' \<and>
    (\<bar>i\<bar> < 10 ^ int_max_str_digits \<longrightarrow> format_field (PyInt i) = Inr (decimal i))"
proof -
  let ?url = "''http://'' @ h @ '':'' @ p @ ''/health''"
  have u: "health_url cfg port = Inr ?url"
    using assms by (rule health_url_Inr)
  have b: "bind_port cfg [port] [] = Inr port"
    by (simp add: bind_port_def)
  have c: "requested (snd (check_health cfg net port w)) = requested w @ [?url] \<and>
      fst (check_health cfg net port w) =
        (case net ?url of
           Response r \<Rightarrow> Inr (status_code r = 200)
         | Raises e \<Rightarrow> if e = ConnectionError then Inr False else Inl e)"
  proof (cases "net ?url")
    case (Response r)
    with u show ?thesis
      by (simp add: check_health_response print_def)
  next
    case (Raises e)
    with u show ?thesis
      by (simp add: check_health_raises print_def)
  qed
  have f: "\<bar>i\<bar> < 10 ^ int_max_str_digits \<longrightarrow> format_field (PyInt i) = Inr (decimal i)"
    by (simp add: str_int_def)
  from b c f show ?thesis
    by (simp add: call_positional)
qed

theorem port_not_validated_witness:
  "format_field (HOST cfg0) = Inr ''localhost'' \<and>
   format_field (PyStr ''8088'') = Inr ''8088'' \<and>
   requested (snd (call_check_health cfg0 net0 [PyStr ''8088''] [] w0)) =
     [''http://localhost:8088/health''] \<and>
   fst (call_check_health cfg0 net0 [PyStr ''8088''] [] w0) = Inr False \<and>
   format_field (PyInt 70000) = Inr ''70000'' \<and>
   requested (snd (call_check_health cfg0 net0 [PyInt 70000] [] w0)) =
     [''http://localhost:70000/health''] \<and>
   format_field (PyInt (- 1)) = Inr ''-1'' \<and>
   requested (snd (call_check_health cfg0 net0 [PyInt (- 1)] [] w0)) =
     [''http://localhost:-1/health''] \<and>
   format_field PyNone = Inr ''None'' \<and>
   requested (snd (call_check_health cfg0 net0 [PyNone] [] w0)) =
     [''http://localhost:None/health'']"
proof -
  note t = port_not_validated [where cfg = cfg0 and h = "''localhost''" and net = net0 and w = w0]
  have "requested w0 = []"
    by (simp add: w0_def)
  then show ?thesis
    using HOST_cfg0 format_70000 format_minus_1
      t [where port = "PyStr ''8088''" and p = "''8088''"]
      t [where port = "PyInt 70000" and p = "''70000''"]
      t [where port = "PyInt (- 1)" and p = "''-1''"]
      t [where port = PyNone and p = "''None''"]
    by (simp add: net0_def)
qed

text \<open>
  The claim as written, for every value of \<^verbatim>\<open>port\<close>, fails: the integer
  \<open>10 ^ 4300\<close>, which has 4301 digits, is not written into a URL. The f-string
  raises \<open>ValueError\<close>, the exception leaves \<^verbatim>\<open>check_health\<close>, and no GET is issued.
\<close>

theorem port_not_validated_counterexample:
  "int_max_str_digits = 4300 \<and>
   call_check_health cfg0 net0 [PyInt (10 ^ int_max_str_digits)] [] w0 = (Inl ValueError, w0) \<and>
   requested (snd (call_check_health cfg0 net0 [PyInt (10 ^ int_max_str_digits)] [] w0)) =
     requested w0"
proof -
  have c: "call_check_health cfg0 net0 [PyInt (10 ^ int_max_str_digits)] [] w0
             = (Inl ValueError, w0)"
    by (simp only: call_positional check_health_unformattable [OF health_url_too_long])
  have "int_max_str_digits = 4300"
    by (simp only: int_max_str_digits_def)
  with c show ?thesis
    by (simp only: snd_conv simp_thms)
qed

text \<open>
  C9. Importing the module, that is running its body under a name other than
  \<^verbatim>\<open>__main__\<close>, calls nothing: no request, no printed line, no \<^verbatim>\<open>sys.exit\<close>.
  The body ends normally and the world is as it was.
\<close>

theorem import_runs_nothing:
  "name \<noteq> ''__main__'' \<Longrightarrow> module_body cfg net name w = (Inr (), w)"
  by (simp add: module_body_def)

theorem import_runs_nothing_witness:
  "''docker_healthcheck'' \<noteq> ''__main__'' \<and>
   module_body cfg0 net0 ''docker_healthcheck'' w0 = (Inr (), w0)"
  using import_runs_nothing [of "''docker_healthcheck''" cfg0 net0 w0]
  by simp

text \<open>
  C10. Two responses with the same status code give the same returned value and the
  same printed line, whatever their headers and bodies.
\<close>

theorem verdict_depends_on_status_only:
  "health_url cfg port = Inr url \<Longrightarrow>
   net1 url = Response r1 \<Longrightarrow>
   net2 url = Response r2 \<Longrightarrow>
   status_code r1 = status_code r2 \<Longrightarrow>
   fst (check_health cfg net1 port w) = fst (check_health cfg net2 port w) \<and>
   stdout (snd (check_health cfg net1 port w)) = stdout (snd (check_health cfg net2 port w))"
  by (simp add: check_health_response print_def)

theorem verdict_depends_on_status_only_witness:
  "health_url cfg0 (PyInt 5000) = Inr ''http://localhost:5000/health'' \<and>
   net0 ''http://localhost:5000/health'' = Response (resp 200) \<and>
   net_verbose ''http://localhost:5000/health'' = Response resp_verbose \<and>
   resp 200 \<noteq> resp_verbose \<and>
   status_code (resp 200) = status_code resp_verbose \<and>
   fst (check_health cfg0 net0 (PyInt 5000) w0) =
     fst (check_health cfg0 net_verbose (PyInt 5000) w0) \<and>
   stdout (snd (check_health cfg0 net0 (PyInt 5000) w0)) =
     stdout (snd (check_health cfg0 net_verbose (PyInt 5000) w0))"
proof -
  have h1: "net0 ''http://localhost:5000/health'' = Response (resp 200)"
    by (simp add: net0_def)
  have h2: "net_verbose ''http://localhost:5000/health'' = Response resp_verbose"
    by (simp add: net_verbose_def)
  have h3: "status_code (resp 200) = status_code resp_verbose"
    by (simp add: resp_def resp_verbose_def)
  have h4: "resp 200 \<noteq> resp_verbose"
    by (simp add: resp_def resp_verbose_def)
  show ?thesis
    using h1 h2 h3 h4 health_url_cfg0_5000
      verdict_depends_on_status_only
        [of cfg0 "PyInt 5000" "''http://localhost:5000/health''" net0 "resp 200"
            net_verbose resp_verbose w0]
    by simp
qed

end
